theory Spec2Isabelle
  imports Main
begin

section \<open>Values of the n8n workflow service\<close>

text \<open>
  The service (\<^verbatim>\<open>src/services/n8nService.ts\<close>) talks to a remote workflow engine
  with \<^verbatim>\<open>fetch\<close>. Three kinds of JavaScript value cross its boundary: the JSON
  values that \<^verbatim>\<open>response.json()\<close> yields, the values a rejected promise or a
  \<^verbatim>\<open>throw\<close> carries, and strings that may be \<^verbatim>\<open>undefined\<close>.

  A JSON number is kept as an integer: the service only ever tests a number for
  being zero. An object is the list of its own properties, each key once.
\<close>

datatype json =
    JNull
  | JBool bool
  | JNum int
  | JStr string
  | JArr "json list"
  | JObj "(string \<times> json) list"

text \<open>
  What a \<^verbatim>\<open>catch (error)\<close> clause can receive: an instance of \<^verbatim>\<open>Error\<close>
  (\<^verbatim>\<open>TypeError\<close>, \<^verbatim>\<open>SyntaxError\<close>, ...) with its \<^verbatim>\<open>message\<close>, or any other
  thrown value.
\<close>

datatype thrown = ErrorObj string | NonError

text \<open>
  JavaScript truthiness of a value that may be \<^verbatim>\<open>undefined\<close> (\<open>None\<close>), as the
  operators \<^verbatim>\<open>||\<close> and \<^verbatim>\<open>!\<close> test it.
\<close>

fun truthy :: "json option \<Rightarrow> bool" where
  "truthy None = False"
| "truthy (Some JNull) = False"
| "truthy (Some (JBool b)) = b"
| "truthy (Some (JNum n)) = (n \<noteq> 0)"
| "truthy (Some (JStr s)) = (s \<noteq> [])"
| "truthy (Some (JArr xs)) = True"
| "truthy (Some (JObj kvs)) = True"

fun str_truthy :: "string option \<Rightarrow> bool" where
  "str_truthy None = False"
| "str_truthy (Some s) = (s \<noteq> [])"

text \<open>
  \<^verbatim>\<open>a || d\<close> where \<^verbatim>\<open>d\<close> is a string literal: the left operand when it is truthy,
  the literal otherwise.
\<close>

fun js_or :: "json option \<Rightarrow> json \<Rightarrow> json" where
  "js_or None d = d"
| "js_or (Some v) d = (if truthy (Some v) then v else d)"

text \<open>
  The property read \<^verbatim>\<open>result.k\<close> on a parsed body, for the two keys the service
  reads (\<^verbatim>\<open>status\<close> and \<^verbatim>\<open>error\<close>): an object yields its property or
  \<^verbatim>\<open>undefined\<close>, \<^verbatim>\<open>null\<close> raises a \<^verbatim>\<open>TypeError\<close> (the message is V8's), and
  a boolean, number, string or array has no such property.
\<close>

definition null_read_message :: "string \<Rightarrow> string" where
  "null_read_message k =
     ''Cannot read properties of null (reading '' @ [CHR 0x27] @ k @ [CHR 0x27] @ '')''"

fun get_prop :: "json \<Rightarrow> string \<Rightarrow> thrown + json option" where
  "get_prop JNull k = Inl (ErrorObj (null_read_message k))"
| "get_prop (JObj kvs) k = Inr (map_of kvs k)"
| "get_prop (JBool b) k = Inr None"
| "get_prop (JNum n) k = Inr None"
| "get_prop (JStr s) k = Inr None"
| "get_prop (JArr xs) k = Inr None"

text \<open>
  The decimal digits of a status code, as the template literal
  \<^verbatim>\<open>`${response.status}`\<close> renders a non-negative integer.
\<close>

definition digit_char :: "nat \<Rightarrow> char" where
  "digit_char d = char_of (48 + d)"

function show_nat :: "nat \<Rightarrow> string" where
  "show_nat n = (if n < 10 then [digit_char n] else show_nat (n div 10) @ [digit_char (n mod 10)])"
  by pat_completeness auto
termination
  by (relation "measure id") auto

declare show_nat.simps [simp del]

text \<open>Reading decimal digits back, to state that \<open>show_nat\<close> writes the number.\<close>

definition digit_val :: "char \<Rightarrow> nat" where
  "digit_val c = of_char c - 48"

definition read_nat :: "string \<Rightarrow> nat" where
  "read_nat s = foldl (\<lambda>a c. 10 * a + digit_val c) 0 s"

section \<open>The network and the trace of effects\<close>

datatype req_body =
    NoBody
  | JsonBody json
  | FormBody "(string \<times> string) list"

record request =
  req_method :: string
  req_url :: string
  req_headers :: "(string \<times> string) list"
  req_body :: req_body

text \<open>
  A response carries its status code and what \<^verbatim>\<open>response.json()\<close> settles to:
  the parsed body, or the value it rejects with when the body is not JSON.
\<close>

record response =
  status :: nat
  json_result :: "thrown + json"

definition ok :: "response \<Rightarrow> bool" where
  "ok r = (200 \<le> status r \<and> status r \<le> 299)"

datatype fetch_outcome = Rejected thrown | Resolved response

text \<open>
  The remote side: the outcome of the \<open>n\<close>-th request of a run (counting from 0),
  which may depend on the request. Every request is settled: a \<^verbatim>\<open>fetch\<close> that
  never resolves nor rejects is outside the model. The trace records, in order,
  each request issued, each wait of \<^verbatim>\<open>setTimeout\<close> and each \<^verbatim>\<open>console.error\<close>.
\<close>

type_synonym network = "nat \<Rightarrow> request \<Rightarrow> fetch_outcome"

datatype event =
    Fetch request
  | Sleep int
  | ConsoleError string thrown

type_synonym trace = "event list"

fun is_fetch :: "event \<Rightarrow> bool" where
  "is_fetch (Fetch r) = True"
| "is_fetch (Sleep ms) = False"
| "is_fetch (ConsoleError l e) = False"

fun is_sleep :: "event \<Rightarrow> bool" where
  "is_sleep (Fetch r) = False"
| "is_sleep (Sleep ms) = True"
| "is_sleep (ConsoleError l e) = False"

definition fetches :: "trace \<Rightarrow> event list" where
  "fetches tr = filter is_fetch tr"

definition sleeps :: "trace \<Rightarrow> event list" where
  "sleeps tr = filter is_sleep tr"

definition fetch :: "network \<Rightarrow> request \<Rightarrow> trace \<Rightarrow> fetch_outcome \<times> trace" where
  "fetch net req tr = (net (length (fetches tr)) req, tr @ [Fetch req])"

section \<open>The response envelope\<close>

record WorkflowResponse =
  success :: bool
  data :: "json option"
  error :: "json option"

text \<open>
  A call settles to an envelope (\<open>Inr\<close>) or rejects with a thrown value (\<open>Inl\<close>),
  and leaves the trace of what it did.
\<close>

type_synonym outcome = "(thrown + WorkflowResponse) \<times> trace"

definition not_configured :: WorkflowResponse where
  "not_configured =
     \<lparr>success = False, data = None,
      error = Some (JStr ''Webhook URL not configured. Please set VITE_N8N_WEBHOOK_URL in your .env file.'')\<rparr>"

definition http_error :: "response \<Rightarrow> thrown" where
  "http_error r = ErrorObj (''HTTP error! status: '' @ show_nat (status r))"

text \<open>
  The \<^verbatim>\<open>catch (error)\<close> block shared by the three functions: log, then return the
  failure envelope with the message of an \<^verbatim>\<open>Error\<close> and a fixed text otherwise.
\<close>

definition catch_block :: "string \<Rightarrow> thrown \<Rightarrow> trace \<Rightarrow> outcome" where
  "catch_block label err tr =
     (Inr \<lparr>success = False, data = None,
           error = Some (JStr (case err of ErrorObj m \<Rightarrow> m
                                | NonError \<Rightarrow> ''An unknown error occurred''))\<rparr>,
      tr @ [ConsoleError label err])"

section \<open>executeWorkflow and executeWorkflowWithFiles\<close>

text \<open>
  The \<^verbatim>\<open>try\<close> block: one POST, \<^verbatim>\<open>throw\<close> on a status outside 200..299, parse the
  body. The payload of \<^verbatim>\<open>executeWorkflow\<close> (\<^verbatim>\<open>data\<close> in the source) is a JSON
  tree, which \<^verbatim>\<open>JSON.stringify\<close> always serialises. A payload it cannot serialise
  (a \<^verbatim>\<open>BigInt\<close>, a cycle) is outside the model: there the source throws inside
  the \<^verbatim>\<open>try\<close> before any request and returns the envelope of the \<^verbatim>\<open>catch\<close> block.
\<close>

definition post_try :: "network \<Rightarrow> request \<Rightarrow> trace \<Rightarrow> outcome" where
  "post_try net req tr =
     (case fetch net req tr of
        (Rejected err, tr1) \<Rightarrow> (Inl err, tr1)
      | (Resolved response, tr1) \<Rightarrow>
          if \<not> ok response then (Inl (http_error response), tr1)
          else (case json_result response of
                  Inl err \<Rightarrow> (Inl err, tr1)
                | Inr result \<Rightarrow> (Inr \<lparr>success = True, data = Some result, error = None\<rparr>, tr1)))"

definition try_catch :: "(trace \<Rightarrow> outcome) \<Rightarrow> (thrown \<Rightarrow> trace \<Rightarrow> outcome) \<Rightarrow> trace \<Rightarrow> outcome" where
  "try_catch body handler tr =
     (case body tr of
        (Inl err, tr1) \<Rightarrow> handler err tr1
      | (Inr v, tr1) \<Rightarrow> (Inr v, tr1))"

definition json_request :: "string \<Rightarrow> json \<Rightarrow> request" where
  "json_request u payload =
     \<lparr>req_method = ''POST'', req_url = u,
      req_headers = [(''Content-Type'', ''application/json'')],
      req_body = JsonBody payload\<rparr>"

definition form_request :: "string \<Rightarrow> (string \<times> string) list \<Rightarrow> request" where
  "form_request u formData =
     \<lparr>req_method = ''POST'', req_url = u, req_headers = [], req_body = FormBody formData\<rparr>"

text \<open>
  \<open>N8N_WEBHOOK_URL\<close> is the module constant read from the environment
  (\<open>None\<close> when the variable is not set).
\<close>

definition executeWorkflow ::
  "string option \<Rightarrow> network \<Rightarrow> json \<Rightarrow> string option \<Rightarrow> trace \<Rightarrow> outcome" where
  "executeWorkflow N8N_WEBHOOK_URL net payload webhookUrl tr =
     (let url = (if str_truthy webhookUrl then webhookUrl else N8N_WEBHOOK_URL) in
      case url of
        None \<Rightarrow> (Inr not_configured, tr)
      | Some u \<Rightarrow>
          if u = [] then (Inr not_configured, tr)
          else try_catch (post_try net (json_request u payload))
                 (catch_block ''Workflow execution error:'') tr)"

definition executeWorkflowWithFiles ::
  "string option \<Rightarrow> network \<Rightarrow> (string \<times> string) list \<Rightarrow> string option \<Rightarrow> trace \<Rightarrow> outcome" where
  "executeWorkflowWithFiles N8N_WEBHOOK_URL net formData webhookUrl tr =
     (let url = (if str_truthy webhookUrl then webhookUrl else N8N_WEBHOOK_URL) in
      case url of
        None \<Rightarrow> (Inr not_configured, tr)
      | Some u \<Rightarrow>
          if u = [] then (Inr not_configured, tr)
          else try_catch (post_try net (form_request u formData))
                 (catch_block ''Workflow execution error:'') tr)"

section \<open>pollWorkflowStatus\<close>

datatype step = Return WorkflowResponse | Next

definition status_request :: "string \<Rightarrow> string \<Rightarrow> request" where
  "status_request statusUrl jobId =
     \<lparr>req_method = ''GET'', req_url = statusUrl @ ''/'' @ jobId, req_headers = [], req_body = NoBody\<rparr>"

text \<open>
  The \<^verbatim>\<open>try\<close> block of one iteration: it returns from the function, falls through
  to the wait (after which \<^verbatim>\<open>attempts\<close> is incremented), or throws. The numbers
  \<^verbatim>\<open>interval\<close>, \<^verbatim>\<open>maxAttempts\<close> and \<^verbatim>\<open>attempts\<close> are integers.
\<close>

definition poll_try :: "network \<Rightarrow> string \<Rightarrow> string \<Rightarrow> int \<Rightarrow> trace \<Rightarrow> (thrown + step) \<times> trace" where
  "poll_try net jobId statusUrl interval tr =
     (case fetch net (status_request statusUrl jobId) tr of
        (Rejected err, tr1) \<Rightarrow> (Inl err, tr1)
      | (Resolved response, tr1) \<Rightarrow>
          if \<not> ok response then (Inl (http_error response), tr1)
          else (case json_result response of
                  Inl err \<Rightarrow> (Inl err, tr1)
                | Inr result \<Rightarrow>
                    (case get_prop result ''status'' of
                       Inl err \<Rightarrow> (Inl err, tr1)
                     | Inr st \<Rightarrow>
                         if st = Some (JStr ''completed'') \<or> st = Some (JStr ''success'')
                         then (Inr (Return \<lparr>success = True, data = Some result, error = None\<rparr>), tr1)
                         else if st = Some (JStr ''failed'') \<or> st = Some (JStr ''error'')
                         then (case get_prop result ''error'' of
                                 Inl err \<Rightarrow> (Inl err, tr1)
                               | Inr e \<Rightarrow>
                                   (Inr (Return \<lparr>success = False, data = None,
                                           error = Some (js_or e (JStr ''Workflow execution failed''))\<rparr>),
                                    tr1))
                         else (Inr Next, tr1 @ [Sleep interval]))))"

definition timed_out :: WorkflowResponse where
  "timed_out = \<lparr>success = False, data = None, error = Some (JStr ''Workflow execution timed out'')\<rparr>"

function poll_loop ::
  "network \<Rightarrow> string \<Rightarrow> string \<Rightarrow> int \<Rightarrow> int \<Rightarrow> int \<Rightarrow> trace \<Rightarrow> outcome" where
  "poll_loop net jobId statusUrl interval maxAttempts attempts tr =
     (if attempts < maxAttempts then
        (case poll_try net jobId statusUrl interval tr of
           (Inl err, tr1) \<Rightarrow> catch_block ''Polling error:'' err tr1
         | (Inr (Return r), tr1) \<Rightarrow> (Inr r, tr1)
         | (Inr Next, tr1) \<Rightarrow> poll_loop net jobId statusUrl interval maxAttempts (attempts + 1) tr1)
      else (Inr timed_out, tr))"
  by pat_completeness auto
termination
  by (relation "measure (\<lambda>(net, jobId, statusUrl, interval, maxAttempts, attempts, tr).
        nat (maxAttempts - attempts))") auto

declare poll_loop.simps [simp del]

definition pollWorkflowStatus ::
  "network \<Rightarrow> string \<Rightarrow> string \<Rightarrow> int \<Rightarrow> int \<Rightarrow> trace \<Rightarrow> outcome" where
  "pollWorkflowStatus net jobId statusUrl interval maxAttempts tr =
     poll_loop net jobId statusUrl interval maxAttempts 0 tr"

section \<open>Scripted networks and predicates on replies\<close>

text \<open>
  A network that answers the first requests of a run from a list and every later one
  with a fixed outcome, and a 2xx-or-not response whose body is JSON.
\<close>

definition replies :: "fetch_outcome list \<Rightarrow> fetch_outcome \<Rightarrow> network" where
  "replies outs rest n req = (if n < length outs then outs ! n else rest)"

definition json_reply :: "nat \<Rightarrow> json \<Rightarrow> fetch_outcome" where
  "json_reply code body = Resolved \<lparr>status = code, json_result = Inr body\<rparr>"

text \<open>
  A reply that keeps the poller waiting: a 2xx response whose body parses, is not
  \<^verbatim>\<open>null\<close>, and whose \<^verbatim>\<open>status\<close> is none of the four terminal values.
\<close>

definition terminal_status :: "json option \<Rightarrow> bool" where
  "terminal_status st =
     (st = Some (JStr ''completed'') \<or> st = Some (JStr ''success'') \<or>
      st = Some (JStr ''failed'') \<or> st = Some (JStr ''error''))"

definition pending_body :: "json \<Rightarrow> bool" where
  "pending_body b =
     (case get_prop b ''status'' of Inl err \<Rightarrow> False | Inr st \<Rightarrow> \<not> terminal_status st)"

definition pending_reply :: "fetch_outcome \<Rightarrow> bool" where
  "pending_reply out =
     (case out of
        Rejected err \<Rightarrow> False
      | Resolved r \<Rightarrow>
          ok r \<and> (case json_result r of Inl err \<Rightarrow> False | Inr b \<Rightarrow> pending_body b))"

text \<open>The trace of \<open>k\<close> iterations that fall through to the wait.\<close>

definition rounds :: "nat \<Rightarrow> request \<Rightarrow> int \<Rightarrow> trace" where
  "rounds k req interval = concat (replicate k [Fetch req, Sleep interval])"




text \<open>
  The envelope invariant: which of \<^verbatim>\<open>data\<close> and \<^verbatim>\<open>error\<close> is present, and,
  in the strict form, that the error is a non-empty string.
\<close>

fun is_text :: "json option \<Rightarrow> bool" where
  "is_text (Some (JStr m)) = True"
| "is_text v = False"

fun nonempty_text :: "json option \<Rightarrow> bool" where
  "nonempty_text (Some (JStr m)) = (m \<noteq> [])"
| "nonempty_text v = False"

definition envelope_shape :: "WorkflowResponse \<Rightarrow> bool" where
  "envelope_shape env =
     (if success env then data env \<noteq> None \<and> error env = None
      else data env = None \<and> error env \<noteq> None)"

definition strict_envelope :: "WorkflowResponse \<Rightarrow> bool" where
  "strict_envelope env =
     (if success env then data env \<noteq> None \<and> error env = None
      else data env = None \<and> nonempty_text (error env))"

text \<open>
  Conditions on the remote side: every \<^verbatim>\<open>Error\<close> it raises carries a non-empty
  message, and the \<^verbatim>\<open>error\<close> field of a body is a string whenever it is truthy.
\<close>

fun nonempty_message :: "thrown \<Rightarrow> bool" where
  "nonempty_message (ErrorObj m) = (m \<noteq> [])"
| "nonempty_message NonError = True"

definition worded_reply :: "fetch_outcome \<Rightarrow> bool" where
  "worded_reply out =
     (case out of
        Rejected err \<Rightarrow> nonempty_message err
      | Resolved r \<Rightarrow> (case json_result r of Inl err \<Rightarrow> nonempty_message err | Inr b \<Rightarrow> True))"

definition text_error_reply :: "fetch_outcome \<Rightarrow> bool" where
  "text_error_reply out =
     (case out of
        Rejected err \<Rightarrow> True
      | Resolved r \<Rightarrow>
          (case json_result r of
             Inl err \<Rightarrow> True
           | Inr b \<Rightarrow>
               (case get_prop b ''error'' of
                  Inl err \<Rightarrow> True
                | Inr e \<Rightarrow> if truthy e then is_text e else True)))"

section \<open>Traces\<close>

lemma fetches_append [simp]: "fetches (tr @ tr') = fetches tr @ fetches tr'"
  by (simp add: fetches_def)

lemma fetches_Nil [simp]: "fetches [] = []"
  by (simp add: fetches_def)

lemma fetches_Cons [simp]:
  "fetches (e # tr) = (if is_fetch e then e # fetches tr else fetches tr)"
  by (simp add: fetches_def)

lemma sleeps_append [simp]: "sleeps (tr @ tr') = sleeps tr @ sleeps tr'"
  by (simp add: sleeps_def)

lemma sleeps_Nil [simp]: "sleeps [] = []"
  by (simp add: sleeps_def)

lemma sleeps_Cons [simp]:
  "sleeps (e # tr) = (if is_sleep e then e # sleeps tr else sleeps tr)"
  by (simp add: sleeps_def)

lemma rounds_0 [simp]: "rounds 0 req interval = []"
  by (simp add: rounds_def)

lemma rounds_Suc: "rounds (Suc k) req interval = Fetch req # Sleep interval # rounds k req interval"
  by (simp add: rounds_def)

lemma fetches_rounds [simp]: "fetches (rounds k req interval) = replicate k (Fetch req)"
  by (induction k) (simp_all add: rounds_Suc)

lemma sleeps_rounds [simp]: "sleeps (rounds k req interval) = replicate k (Sleep interval)"
  by (induction k) (simp_all add: rounds_Suc)

section \<open>The webhook invoker\<close>

lemma post_try_http_error:
  assumes "net (length (fetches tr)) req = Resolved r" and "\<not> ok r"
  shows "try_catch (post_try net req) (catch_block label) tr =
           (Inr \<lparr>success = False, data = None,
                  error = Some (JStr (''HTTP error! status: '' @ show_nat (status r)))\<rparr>,
            tr @ [Fetch req, ConsoleError label (http_error r)])"
  using assms
  by (simp add: try_catch_def post_try_def fetch_def catch_block_def http_error_def)

lemma post_try_success:
  assumes "net (length (fetches tr)) req = Resolved r" and "ok r" and "json_result r = Inr B"
  shows "try_catch (post_try net req) handler tr =
           (Inr \<lparr>success = True, data = Some B, error = None\<rparr>, tr @ [Fetch req])"
  using assms
  by (simp add: try_catch_def post_try_def fetch_def)

lemma show_nat_500: "show_nat 500 = ''500''"
  by code_simp

lemma digit_val_digit_char: "d < 10 \<Longrightarrow> digit_val (digit_char d) = d"
  by (simp add: digit_val_def digit_char_def)

lemma read_nat_snoc: "read_nat (s @ [c]) = 10 * read_nat s + digit_val c"
  by (simp add: read_nat_def)

lemma read_show_nat: "read_nat (show_nat n) = n"
proof (induction n rule: show_nat.induct)
  case (1 n)
  show ?case
  proof (cases "n < 10")
    case True
    then show ?thesis
      by (subst show_nat.simps) (simp add: read_nat_def digit_val_digit_char)
  next
    case False
    then have "read_nat (show_nat (n div 10)) = n div 10"
      using "1.IH" by simp
    with False show ?thesis
      by (subst show_nat.simps) (simp add: read_nat_snoc digit_val_digit_char)
  qed
qed

text \<open>
  C1. With no \<^verbatim>\<open>webhookUrl\<close> argument and no configured default (each
  \<^verbatim>\<open>undefined\<close> or the empty string), \<^verbatim>\<open>executeWorkflow\<close> and
  \<^verbatim>\<open>executeWorkflowWithFiles\<close> return \<^verbatim>\<open>success: false\<close> with the message that the
  webhook URL is not configured, and the trace is unchanged: no request is issued.
\<close>

theorem not_configured_no_request:
  assumes "\<not> str_truthy webhookUrl" and "\<not> str_truthy N8N_WEBHOOK_URL"
  shows "executeWorkflow N8N_WEBHOOK_URL net payload webhookUrl tr =
           (Inr \<lparr>success = False, data = None,
                  error = Some (JStr ''Webhook URL not configured. Please set VITE_N8N_WEBHOOK_URL in your .env file.'')\<rparr>,
            tr)
       \<and> executeWorkflowWithFiles N8N_WEBHOOK_URL net formData webhookUrl tr =
           (Inr \<lparr>success = False, data = None,
                  error = Some (JStr ''Webhook URL not configured. Please set VITE_N8N_WEBHOOK_URL in your .env file.'')\<rparr>,
            tr)"
  using assms
  by (cases N8N_WEBHOOK_URL)
     (simp_all add: executeWorkflow_def executeWorkflowWithFiles_def not_configured_def)

theorem not_configured_no_request_witness:
  "\<not> str_truthy None
   \<and> executeWorkflow None (replies [] (json_reply 200 JNull)) (JObj [(''q'', JStr ''x'')]) None [] =
       (Inr \<lparr>success = False, data = None,
              error = Some (JStr ''Webhook URL not configured. Please set VITE_N8N_WEBHOOK_URL in your .env file.'')\<rparr>,
        [])
   \<and> executeWorkflowWithFiles None (replies [] (json_reply 200 JNull)) [(''file'', ''a.txt'')] None [] =
       (Inr \<lparr>success = False, data = None,
              error = Some (JStr ''Webhook URL not configured. Please set VITE_N8N_WEBHOOK_URL in your .env file.'')\<rparr>,
        [])"
  using not_configured_no_request [of None None "replies [] (json_reply 200 JNull)"
      "JObj [(''q'', JStr ''x'')]" "[]" "[(''file'', ''a.txt'')]"]
  by simp

text \<open>
  C2. With a resolvable endpoint \<open>u\<close>, when the POST is answered with a status outside
  200..299, \<^verbatim>\<open>executeWorkflow\<close> returns \<^verbatim>\<open>success: false\<close> with the error
  \<^verbatim>\<open>HTTP error! status: \<close> followed by the decimal digits of the status code
  (they read back as the code), and the call adds exactly one request to the trace.
\<close>

theorem executeWorkflow_non_2xx:
  assumes "(if str_truthy webhookUrl then webhookUrl else N8N_WEBHOOK_URL) = Some u"
    and "u \<noteq> []"
    and "net (length (fetches tr)) (json_request u payload) = Resolved r"
    and "\<not> ok r"
  shows "\<exists>tr'. executeWorkflow N8N_WEBHOOK_URL net payload webhookUrl tr =
           (Inr \<lparr>success = False, data = None,
                  error = Some (JStr (''HTTP error! status: '' @ show_nat (status r)))\<rparr>, tr')
         \<and> read_nat (show_nat (status r)) = status r
         \<and> fetches tr' = fetches tr @ [Fetch (json_request u payload)]"
  using assms post_try_http_error [of net tr "json_request u payload" r]
  by (simp add: executeWorkflow_def read_show_nat)

theorem executeWorkflow_non_2xx_witness:
  "\<exists>tr'. executeWorkflow None (replies [] (json_reply 500 JNull)) (JObj [(''q'', JStr ''x'')])
           (Some ''http://n8n/hook'') [] =
           (Inr \<lparr>success = False, data = None, error = Some (JStr ''HTTP error! status: 500'')\<rparr>, tr')
         \<and> fetches tr' = [Fetch (json_request ''http://n8n/hook'' (JObj [(''q'', JStr ''x'')]))]"
  using executeWorkflow_non_2xx [of "Some ''http://n8n/hook''" None "''http://n8n/hook''"
      "replies [] (json_reply 500 JNull)" "[]" "JObj [(''q'', JStr ''x'')]"
      "\<lparr>status = 500, json_result = Inr JNull\<rparr>"]
  by (auto simp add: replies_def json_reply_def ok_def show_nat_500)

text \<open>
  C3. With a resolvable endpoint \<open>u\<close>, when the single POST is answered with a 2xx
  response whose body parses as the JSON value \<open>B\<close>, \<^verbatim>\<open>executeWorkflow\<close> (JSON
  request) and \<^verbatim>\<open>executeWorkflowWithFiles\<close> (form-data request, no headers) each
  return \<^verbatim>\<open>{success: true, data: B}\<close>, having issued that one request.
\<close>

theorem execute_2xx_json:
  assumes "(if str_truthy webhookUrl then webhookUrl else N8N_WEBHOOK_URL) = Some u"
    and "u \<noteq> []"
    and "ok r"
    and "json_result r = Inr B"
  shows "(net (length (fetches tr)) (json_request u payload) = Resolved r \<longrightarrow>
            executeWorkflow N8N_WEBHOOK_URL net payload webhookUrl tr =
              (Inr \<lparr>success = True, data = Some B, error = None\<rparr>,
               tr @ [Fetch (json_request u payload)]))
       \<and> (net (length (fetches tr)) (form_request u formData) = Resolved r \<longrightarrow>
            executeWorkflowWithFiles N8N_WEBHOOK_URL net formData webhookUrl tr =
              (Inr \<lparr>success = True, data = Some B, error = None\<rparr>,
               tr @ [Fetch (form_request u formData)]))"
  using assms
  by (simp add: executeWorkflow_def executeWorkflowWithFiles_def post_try_success)

theorem execute_2xx_json_witness:
  "executeWorkflow (Some ''http://n8n/hook'') (replies [] (json_reply 200 (JObj [(''answer'', JNum 7)])))
       (JObj [(''q'', JStr ''x'')]) None [] =
     (Inr \<lparr>success = True, data = Some (JObj [(''answer'', JNum 7)]), error = None\<rparr>,
      [Fetch \<lparr>req_method = ''POST'', req_url = ''http://n8n/hook'',
              req_headers = [(''Content-Type'', ''application/json'')],
              req_body = JsonBody (JObj [(''q'', JStr ''x'')])\<rparr>])
   \<and> executeWorkflowWithFiles (Some ''http://n8n/hook'')
       (replies [] (json_reply 200 (JObj [(''answer'', JNum 7)]))) [(''file'', ''a.txt'')] None [] =
     (Inr \<lparr>success = True, data = Some (JObj [(''answer'', JNum 7)]), error = None\<rparr>,
      [Fetch \<lparr>req_method = ''POST'', req_url = ''http://n8n/hook'', req_headers = [],
              req_body = FormBody [(''file'', ''a.txt'')]\<rparr>])"
  using execute_2xx_json [of None "Some ''http://n8n/hook''" "''http://n8n/hook''"
      "\<lparr>status = 200, json_result = Inr (JObj [(''answer'', JNum 7)])\<rparr>"
      "JObj [(''answer'', JNum 7)]"
      "replies [] (json_reply 200 (JObj [(''answer'', JNum 7)]))" "[]"
      "JObj [(''q'', JStr ''x'')]" "[(''file'', ''a.txt'')]"]
  by (simp add: replies_def json_reply_def ok_def json_request_def form_request_def)

text \<open>
  C8, as the code has it. \<^verbatim>\<open>executeWorkflow\<close> does not look into the body: a 2xx
  response whose JSON body has an \<^verbatim>\<open>error\<close> field is returned as
  \<^verbatim>\<open>{success: true, data: <the body>}\<close>, with no \<^verbatim>\<open>error\<close> in the envelope. The
  claim that such a body is turned into \<^verbatim>\<open>success: false\<close> fails on the body
  \<^verbatim>\<open>{error: "quota exceeded"}\<close> (the counterexample below).
\<close>

theorem executeWorkflow_error_field_is_data:
  assumes "(if str_truthy webhookUrl then webhookUrl else N8N_WEBHOOK_URL) = Some u"
    and "u \<noteq> []"
    and "net (length (fetches tr)) (json_request u payload) = Resolved r"
    and "ok r"
    and "json_result r = Inr (JObj kvs)"
    and "map_of kvs ''error'' = Some e"
  shows "executeWorkflow N8N_WEBHOOK_URL net payload webhookUrl tr =
           (Inr \<lparr>success = True, data = Some (JObj kvs), error = None\<rparr>,
            tr @ [Fetch (json_request u payload)])"
  using assms(1-5)
  by (simp add: executeWorkflow_def post_try_success)

theorem executeWorkflow_error_field_is_data_witness:
  "executeWorkflow (Some ''http://n8n/hook'')
     (replies [] (json_reply 201 (JObj [(''error'', JObj [(''message'', JStr ''node failed'')]),
                                        (''status'', JStr ''failed'')])))
     (JObj []) None [] =
   (Inr \<lparr>success = True,
          data = Some (JObj [(''error'', JObj [(''message'', JStr ''node failed'')]),
                             (''status'', JStr ''failed'')]),
          error = None\<rparr>,
    [Fetch (json_request ''http://n8n/hook'' (JObj []))])"
  using executeWorkflow_error_field_is_data [of None "Some ''http://n8n/hook''" "''http://n8n/hook''"
      "replies [] (json_reply 201 (JObj [(''error'', JObj [(''message'', JStr ''node failed'')]),
                                        (''status'', JStr ''failed'')]))"
      "[]" "JObj []"
      "\<lparr>status = 201, json_result = Inr (JObj [(''error'', JObj [(''message'', JStr ''node failed'')]),
                                        (''status'', JStr ''failed'')])\<rparr>"
      "[(''error'', JObj [(''message'', JStr ''node failed'')]), (''status'', JStr ''failed'')]"
      "JObj [(''message'', JStr ''node failed'')]"]
  by (simp add: replies_def json_reply_def ok_def)

theorem executeWorkflow_error_field_counterexample:
  "executeWorkflow None (replies [] (json_reply 200 (JObj [(''error'', JStr ''quota exceeded'')])))
     (JObj [(''q'', JStr ''x'')]) (Some ''http://n8n/hook'') [] =
   (Inr \<lparr>success = True, data = Some (JObj [(''error'', JStr ''quota exceeded'')]), error = None\<rparr>,
    [Fetch (json_request ''http://n8n/hook'' (JObj [(''q'', JStr ''x'')]))])"
  by (simp add: executeWorkflow_def try_catch_def post_try_def fetch_def replies_def
      json_reply_def ok_def)

section \<open>The status poller\<close>

lemma poll_loop_exhausted:
  assumes "maxAttempts \<le> attempts"
  shows "poll_loop net jobId statusUrl interval maxAttempts attempts tr = (Inr timed_out, tr)"
  using assms by (subst poll_loop.simps) simp

lemma pending_replyD:
  assumes "pending_reply out"
  obtains r b where "out = Resolved r" "ok r" "json_result r = Inr b" "pending_body b"
  using assms
  by (cases out; cases "json_result (case out of Resolved r \<Rightarrow> r)")
     (simp_all add: pending_reply_def)

lemma pending_bodyD:
  assumes "pending_body b"
  obtains st where "get_prop b ''status'' = Inr st"
    "st \<noteq> Some (JStr ''completed'')" "st \<noteq> Some (JStr ''success'')"
    "st \<noteq> Some (JStr ''failed'')" "st \<noteq> Some (JStr ''error'')"
  using assms
  by (cases "get_prop b ''status''") (simp_all add: pending_body_def terminal_status_def)

lemma poll_try_next:
  assumes "net (length (fetches tr)) (status_request statusUrl jobId) = Resolved r"
    and "ok r"
    and "json_result r = Inr b"
    and "get_prop b ''status'' = Inr st"
    and "st \<noteq> Some (JStr ''completed'')" and "st \<noteq> Some (JStr ''success'')"
    and "st \<noteq> Some (JStr ''failed'')" and "st \<noteq> Some (JStr ''error'')"
  shows "poll_try net jobId statusUrl interval tr =
           (Inr Next, tr @ [Fetch (status_request statusUrl jobId), Sleep interval])"
  unfolding poll_try_def fetch_def
  by (simp add: assms)

lemma poll_try_pending:
  assumes "pending_reply (net (length (fetches tr)) (status_request statusUrl jobId))"
  shows "poll_try net jobId statusUrl interval tr =
           (Inr Next, tr @ [Fetch (status_request statusUrl jobId), Sleep interval])"
proof -
  from assms obtain r b
    where r: "net (length (fetches tr)) (status_request statusUrl jobId) = Resolved r"
      "ok r" "json_result r = Inr b" "pending_body b"
    by (rule pending_replyD)
  from r(4) obtain st where st: "get_prop b ''status'' = Inr st"
    "st \<noteq> Some (JStr ''completed'')" "st \<noteq> Some (JStr ''success'')"
    "st \<noteq> Some (JStr ''failed'')" "st \<noteq> Some (JStr ''error'')"
    by (rule pending_bodyD)
  from r(1-3) st show ?thesis by (rule poll_try_next)
qed

lemma poll_try_completed:
  assumes "net (length (fetches tr)) (status_request statusUrl jobId) = Resolved r"
    and "ok r"
    and "json_result r = Inr b"
    and "get_prop b ''status'' = Inr st"
    and "st = Some (JStr ''completed'') \<or> st = Some (JStr ''success'')"
  shows "poll_try net jobId statusUrl interval tr =
           (Inr (Return \<lparr>success = True, data = Some b, error = None\<rparr>),
            tr @ [Fetch (status_request statusUrl jobId)])"
  unfolding poll_try_def fetch_def
  using assms(5) by (simp add: assms(1-4))

lemma poll_try_failed:
  assumes "net (length (fetches tr)) (status_request statusUrl jobId) = Resolved r"
    and "ok r"
    and "json_result r = Inr b"
    and "get_prop b ''status'' = Inr st"
    and "st = Some (JStr ''failed'') \<or> st = Some (JStr ''error'')"
    and "get_prop b ''error'' = Inr e"
  shows "poll_try net jobId statusUrl interval tr =
           (Inr (Return \<lparr>success = False, data = None,
                   error = Some (js_or e (JStr ''Workflow execution failed''))\<rparr>),
            tr @ [Fetch (status_request statusUrl jobId)])"
  unfolding poll_try_def fetch_def
  using assms(5) by (auto simp add: assms(1-4,6))

lemma poll_try_rejected:
  assumes "net (length (fetches tr)) (status_request statusUrl jobId) = Rejected err"
  shows "poll_try net jobId statusUrl interval tr =
           (Inl err, tr @ [Fetch (status_request statusUrl jobId)])"
  unfolding poll_try_def fetch_def
  by (simp add: assms)

lemma poll_try_non_2xx:
  assumes "net (length (fetches tr)) (status_request statusUrl jobId) = Resolved r"
    and "\<not> ok r"
  shows "poll_try net jobId statusUrl interval tr =
           (Inl (http_error r), tr @ [Fetch (status_request statusUrl jobId)])"
  unfolding poll_try_def fetch_def
  by (simp add: assms)

lemma poll_try_unparsed:
  assumes "net (length (fetches tr)) (status_request statusUrl jobId) = Resolved r"
    and "ok r" and "json_result r = Inl err"
  shows "poll_try net jobId statusUrl interval tr =
           (Inl err, tr @ [Fetch (status_request statusUrl jobId)])"
  unfolding poll_try_def fetch_def
  by (simp add: assms)

lemma poll_try_no_status:
  assumes "net (length (fetches tr)) (status_request statusUrl jobId) = Resolved r"
    and "ok r" and "json_result r = Inr b" and "get_prop b ''status'' = Inl err"
  shows "poll_try net jobId statusUrl interval tr =
           (Inl err, tr @ [Fetch (status_request statusUrl jobId)])"
  unfolding poll_try_def fetch_def
  by (simp add: assms)

lemma poll_loop_return:
  assumes "attempts < maxAttempts"
    and "poll_try net jobId statusUrl interval tr = (Inr (Return env), tr1)"
  shows "poll_loop net jobId statusUrl interval maxAttempts attempts tr = (Inr env, tr1)"
  using assms by (subst poll_loop.simps) simp

lemma poll_loop_throw:
  assumes "attempts < maxAttempts"
    and "poll_try net jobId statusUrl interval tr = (Inl err, tr1)"
  shows "poll_loop net jobId statusUrl interval maxAttempts attempts tr =
           catch_block ''Polling error:'' err tr1"
  using assms by (subst poll_loop.simps) simp

lemma poll_loop_next:
  assumes "attempts < maxAttempts"
    and "poll_try net jobId statusUrl interval tr = (Inr Next, tr1)"
  shows "poll_loop net jobId statusUrl interval maxAttempts attempts tr =
           poll_loop net jobId statusUrl interval maxAttempts (attempts + 1) tr1"
  using assms by (subst poll_loop.simps) simp

lemma poll_loop_pending:
  assumes "\<forall>i<k. pending_reply (net (length (fetches tr) + i) (status_request statusUrl jobId))"
    and "attempts + int k \<le> maxAttempts"
  shows "poll_loop net jobId statusUrl interval maxAttempts attempts tr =
         poll_loop net jobId statusUrl interval maxAttempts (attempts + int k)
           (tr @ rounds k (status_request statusUrl jobId) interval)"
  using assms
proof (induction k arbitrary: attempts tr)
  case 0
  then show ?case by simp
next
  case (Suc k)
  let ?req = "status_request statusUrl jobId"
  let ?tr1 = "tr @ [Fetch ?req, Sleep interval]"
  from Suc.prems(1) have first: "pending_reply (net (length (fetches tr)) ?req)"
    by (metis add.right_neutral zero_less_Suc)
  from Suc.prems(2) have lt: "attempts < maxAttempts" by simp
  have step: "poll_loop net jobId statusUrl interval maxAttempts attempts tr =
              poll_loop net jobId statusUrl interval maxAttempts (attempts + 1) ?tr1"
    using lt first poll_try_pending [of net tr statusUrl jobId interval]
    by (simp add: poll_loop_next)
  have later: "\<forall>i<k. pending_reply (net (length (fetches ?tr1) + i) ?req)"
  proof (intro allI impI)
    fix i assume "i < k"
    then have "Suc i < Suc k" by simp
    with Suc.prems(1) have "pending_reply (net (length (fetches tr) + Suc i) ?req)"
      by blast
    then show "pending_reply (net (length (fetches ?tr1) + i) ?req)" by simp
  qed
  have budget: "(attempts + 1) + int k \<le> maxAttempts"
    using Suc.prems(2) by simp
  have "poll_loop net jobId statusUrl interval maxAttempts (attempts + 1) ?tr1 =
        poll_loop net jobId statusUrl interval maxAttempts ((attempts + 1) + int k)
          (?tr1 @ rounds k ?req interval)"
    using later budget Suc.IH [of ?tr1 "attempts + 1"] by blast
  with step show ?case
    by (simp add: rounds_Suc add.assoc)
qed

lemma poll_after_pending:
  assumes "\<forall>i<k. pending_reply (net (length (fetches tr) + i) (status_request statusUrl jobId))"
    and "int k \<le> maxAttempts"
  shows "pollWorkflowStatus net jobId statusUrl interval maxAttempts tr =
         poll_loop net jobId statusUrl interval maxAttempts (int k)
           (tr @ rounds k (status_request statusUrl jobId) interval)"
  using assms poll_loop_pending [of k net tr statusUrl jobId 0 maxAttempts interval]
  by (simp add: pollWorkflowStatus_def)

text \<open>
  C10. With \<^verbatim>\<open>maxAttempts\<close> at most 0, \<^verbatim>\<open>pollWorkflowStatus\<close> returns
  \<^verbatim>\<open>{success: false, error: 'Workflow execution timed out'}\<close> with the trace unchanged:
  no request and no wait.
\<close>

theorem poll_no_attempts:
  assumes "maxAttempts \<le> 0"
  shows "pollWorkflowStatus net jobId statusUrl interval maxAttempts tr =
           (Inr \<lparr>success = False, data = None, error = Some (JStr ''Workflow execution timed out'')\<rparr>,
            tr)"
  using assms
  by (simp add: pollWorkflowStatus_def poll_loop_exhausted timed_out_def)

theorem poll_no_attempts_witness:
  "(0::int) \<le> 0
   \<and> pollWorkflowStatus (replies [] (json_reply 200 (JObj [(''status'', JStr ''completed'')])))
       ''job-1'' ''http://n8n/status'' 2000 0 [] =
       (Inr \<lparr>success = False, data = None, error = Some (JStr ''Workflow execution timed out'')\<rparr>, [])"
  using poll_no_attempts [of 0 "replies [] (json_reply 200 (JObj [(''status'', JStr ''completed'')]))"
      "''job-1''" "''http://n8n/status''" 2000 "[]"]
  by simp

text \<open>
  C4. When the first \<open>k\<close> replies of a poll keep it waiting and reply \<open>k\<close>, within
  the budget, is a 2xx response whose body has \<^verbatim>\<open>status\<close> equal to
  \<^verbatim>\<open>completed\<close> or \<^verbatim>\<open>success\<close>, \<^verbatim>\<open>pollWorkflowStatus\<close> returns
  \<^verbatim>\<open>{success: true, data: <the whole body>}\<close> at once: \<open>k + 1\<close> requests and
  \<open>k\<close> waits of \<^verbatim>\<open>interval\<close>. The witness is the run of the claim: two
  \<^verbatim>\<open>processing\<close> replies, then \<^verbatim>\<open>{status: "completed", result: 42}\<close>, with
  interval 10 and budget 30: three requests, two waits of 10.
\<close>

theorem poll_completed:
  assumes "\<forall>i<k. pending_reply (net (length (fetches tr) + i) (status_request statusUrl jobId))"
    and "int k < maxAttempts"
    and "net (length (fetches tr) + k) (status_request statusUrl jobId) = Resolved r"
    and "ok r"
    and "json_result r = Inr (JObj kvs)"
    and "map_of kvs ''status'' = Some (JStr ''completed'') \<or> map_of kvs ''status'' = Some (JStr ''success'')"
  shows "\<exists>tr'. pollWorkflowStatus net jobId statusUrl interval maxAttempts tr =
           (Inr \<lparr>success = True, data = Some (JObj kvs), error = None\<rparr>, tr')
         \<and> tr' = tr @ rounds k (status_request statusUrl jobId) interval
                     @ [Fetch (status_request statusUrl jobId)]
         \<and> fetches tr' = fetches tr @ replicate (Suc k) (Fetch (status_request statusUrl jobId))
         \<and> sleeps tr' = sleeps tr @ replicate k (Sleep interval)"
proof -
  let ?req = "status_request statusUrl jobId"
  let ?trk = "tr @ rounds k ?req interval"
  have "net (length (fetches ?trk)) ?req = Resolved r"
    using assms(3) by simp
  moreover have "get_prop (JObj kvs) ''status'' = Inr (map_of kvs ''status'')"
    by simp
  ultimately have "poll_try net jobId statusUrl interval ?trk =
          (Inr (Return \<lparr>success = True, data = Some (JObj kvs), error = None\<rparr>), ?trk @ [Fetch ?req])"
    using assms(4-6) poll_try_completed [of net ?trk statusUrl jobId r "JObj kvs"] by blast
  then have "poll_loop net jobId statusUrl interval maxAttempts (int k) ?trk =
          (Inr \<lparr>success = True, data = Some (JObj kvs), error = None\<rparr>, ?trk @ [Fetch ?req])"
    using assms(2) by (simp add: poll_loop_return)
  then show ?thesis
    using assms(1,2) poll_after_pending [of k net tr statusUrl jobId maxAttempts interval]
    by (simp add: replicate_append_same)
qed

theorem poll_completed_witness:
  "pollWorkflowStatus
     (replies [json_reply 200 (JObj [(''status'', JStr ''processing'')]),
               json_reply 200 (JObj [(''status'', JStr ''processing'')])]
        (json_reply 200 (JObj [(''status'', JStr ''completed''), (''result'', JNum 42)])))
     ''job-1'' ''http://n8n/status'' 10 30 [] =
   (Inr \<lparr>success = True,
          data = Some (JObj [(''status'', JStr ''completed''), (''result'', JNum 42)]),
          error = None\<rparr>,
    [Fetch (status_request ''http://n8n/status'' ''job-1''), Sleep 10,
     Fetch (status_request ''http://n8n/status'' ''job-1''), Sleep 10,
     Fetch (status_request ''http://n8n/status'' ''job-1'')])"
proof -
  let ?net = "replies [json_reply 200 (JObj [(''status'', JStr ''processing'')]),
               json_reply 200 (JObj [(''status'', JStr ''processing'')])]
        (json_reply 200 (JObj [(''status'', JStr ''completed''), (''result'', JNum 42)]))"
  let ?req = "status_request ''http://n8n/status'' ''job-1''"
  let ?r = "\<lparr>status = 200,
     json_result = Inr (JObj [(''status'', JStr ''completed''), (''result'', JNum 42)])\<rparr>"
  have proc: "pending_reply (json_reply 200 (JObj [(''status'', JStr ''processing'')]))"
    by (simp add: pending_reply_def json_reply_def ok_def pending_body_def terminal_status_def)
  have pend: "\<forall>i<2. pending_reply (?net (length (fetches []) + i) ?req)"
    using proc by (simp add: replies_def less_Suc_eq numeral_2_eq_2)
  have last: "?net (length (fetches []) + 2) ?req = Resolved ?r"
    by (simp add: replies_def json_reply_def)
  have okr: "ok ?r"
    by (simp add: ok_def)
  show ?thesis
    using pend last okr
      poll_completed [of 2 ?net "[]" "''http://n8n/status''" "''job-1''" 30 ?r
        "[(''status'', JStr ''completed''), (''result'', JNum 42)]" 10]
    by (simp add: rounds_def numeral_2_eq_2)
qed

lemma poll_first_reply_failed:
  assumes "0 < maxAttempts"
    and "net 0 (status_request statusUrl jobId) = Resolved r"
    and "ok r"
    and "json_result r = Inr (JObj kvs)"
    and "map_of kvs ''status'' = Some (JStr ''failed'') \<or> map_of kvs ''status'' = Some (JStr ''error'')"
  shows "pollWorkflowStatus net jobId statusUrl interval maxAttempts [] =
           (Inr \<lparr>success = False, data = None,
                  error = Some (js_or (map_of kvs ''error'') (JStr ''Workflow execution failed''))\<rparr>,
            [Fetch (status_request statusUrl jobId)])"
proof -
  let ?req = "status_request statusUrl jobId"
  have "net (length (fetches [])) ?req = Resolved r"
    using assms(2) by simp
  moreover have "get_prop (JObj kvs) ''status'' = Inr (map_of kvs ''status'')"
    and "get_prop (JObj kvs) ''error'' = Inr (map_of kvs ''error'')"
    by simp_all
  ultimately have "poll_try net jobId statusUrl interval [] =
      (Inr (Return \<lparr>success = False, data = None,
              error = Some (js_or (map_of kvs ''error'') (JStr ''Workflow execution failed''))\<rparr>),
       [] @ [Fetch ?req])"
    using assms(3-5) poll_try_failed [of net "[]" statusUrl jobId r "JObj kvs"] by blast
  then show ?thesis
    using assms(1) by (simp add: pollWorkflowStatus_def poll_loop_return)
qed

text \<open>
  C5, as the code has it. When the first \<open>k\<close> replies keep the poll waiting and reply
  \<open>k\<close>, within the budget, is a 2xx response whose body has \<^verbatim>\<open>status\<close> equal to
  \<^verbatim>\<open>failed\<close> or \<^verbatim>\<open>error\<close>, \<^verbatim>\<open>pollWorkflowStatus\<close> returns \<^verbatim>\<open>success: false\<close> at
  once, after \<open>k + 1\<close> requests. Its \<^verbatim>\<open>error\<close> is the body's \<^verbatim>\<open>error\<close> field when
  that field is a non-empty string, and \<^verbatim>\<open>'Workflow execution failed'\<close> when the
  field is absent, \<^verbatim>\<open>null\<close>, \<^verbatim>\<open>false\<close>, \<^verbatim>\<open>0\<close> or the empty string. The witness
  holds the run of the claim (\<^verbatim>\<open>{status: "failed", error: "bad input"}\<close> on the
  first reply gives \<^verbatim>\<open>{success: false, error: "bad input"}\<close> after one request)
  and a run that falls back (\<^verbatim>\<open>{status: "error"}\<close> with no \<^verbatim>\<open>error\<close> field).

  Read by its words, "the error field when it is a non-empty value, the generic
  message otherwise" fails both ways (the counterexample below): the field
  \<^verbatim>\<open>0\<close> is a value and gives the generic message, and the empty array \<^verbatim>\<open>[]\<close>
  comes back as the error. What happens to a truthy field that is not a string is
  the subject of C9 and is left out here.
\<close>

theorem poll_failed:
  assumes "\<forall>i<k. pending_reply (net (length (fetches tr) + i) (status_request statusUrl jobId))"
    and "int k < maxAttempts"
    and "net (length (fetches tr) + k) (status_request statusUrl jobId) = Resolved r"
    and "ok r"
    and "json_result r = Inr (JObj kvs)"
    and "map_of kvs ''status'' = Some (JStr ''failed'') \<or> map_of kvs ''status'' = Some (JStr ''error'')"
  shows "\<exists>env tr'. pollWorkflowStatus net jobId statusUrl interval maxAttempts tr = (Inr env, tr')
         \<and> success env = False \<and> data env = None
         \<and> (\<forall>s. map_of kvs ''error'' = Some (JStr s) \<and> s \<noteq> [] \<longrightarrow> error env = Some (JStr s))
         \<and> (map_of kvs ''error'' = None \<or> map_of kvs ''error'' = Some JNull
              \<or> map_of kvs ''error'' = Some (JBool False) \<or> map_of kvs ''error'' = Some (JNum 0)
              \<or> map_of kvs ''error'' = Some (JStr [])
              \<longrightarrow> error env = Some (JStr ''Workflow execution failed''))
         \<and> tr' = tr @ rounds k (status_request statusUrl jobId) interval
                     @ [Fetch (status_request statusUrl jobId)]
         \<and> fetches tr' = fetches tr @ replicate (Suc k) (Fetch (status_request statusUrl jobId))"
proof -
  let ?req = "status_request statusUrl jobId"
  let ?trk = "tr @ rounds k ?req interval"
  let ?env = "\<lparr>success = False, data = None,
                error = Some (js_or (map_of kvs ''error'') (JStr ''Workflow execution failed''))\<rparr>"
  have "net (length (fetches ?trk)) ?req = Resolved r"
    using assms(3) by simp
  moreover have "get_prop (JObj kvs) ''status'' = Inr (map_of kvs ''status'')"
    and "get_prop (JObj kvs) ''error'' = Inr (map_of kvs ''error'')"
    by simp_all
  ultimately have "poll_try net jobId statusUrl interval ?trk = (Inr (Return ?env), ?trk @ [Fetch ?req])"
    using assms(4-6) poll_try_failed [of net ?trk statusUrl jobId r "JObj kvs"] by blast
  then have "poll_loop net jobId statusUrl interval maxAttempts (int k) ?trk =
          (Inr ?env, ?trk @ [Fetch ?req])"
    using assms(2) by (simp add: poll_loop_return)
  then have run: "pollWorkflowStatus net jobId statusUrl interval maxAttempts tr =
          (Inr ?env, ?trk @ [Fetch ?req])"
    using assms(1,2) poll_after_pending [of k net tr statusUrl jobId maxAttempts interval]
    by simp
  have text_kept: "\<forall>s. map_of kvs ''error'' = Some (JStr s) \<and> s \<noteq> [] \<longrightarrow> error ?env = Some (JStr s)"
    by simp
  have fallback: "map_of kvs ''error'' = None \<or> map_of kvs ''error'' = Some JNull
      \<or> map_of kvs ''error'' = Some (JBool False) \<or> map_of kvs ''error'' = Some (JNum 0)
      \<or> map_of kvs ''error'' = Some (JStr [])
      \<longrightarrow> error ?env = Some (JStr ''Workflow execution failed'')"
    by auto
  have trace: "fetches (?trk @ [Fetch ?req]) = fetches tr @ replicate (Suc k) (Fetch ?req)"
    by (simp add: replicate_append_same)
  have whole: "?trk @ [Fetch ?req] = tr @ rounds k ?req interval @ [Fetch ?req]"
    by simp
  show ?thesis
  proof (intro exI conjI)
    show "pollWorkflowStatus net jobId statusUrl interval maxAttempts tr =
        (Inr ?env, ?trk @ [Fetch ?req])"
      by (rule run)
    show "success ?env = False" and "data ?env = None"
      by simp_all
    show "\<forall>s. map_of kvs ''error'' = Some (JStr s) \<and> s \<noteq> [] \<longrightarrow> error ?env = Some (JStr s)"
      by (rule text_kept)
    show "map_of kvs ''error'' = None \<or> map_of kvs ''error'' = Some JNull
        \<or> map_of kvs ''error'' = Some (JBool False) \<or> map_of kvs ''error'' = Some (JNum 0)
        \<or> map_of kvs ''error'' = Some (JStr [])
        \<longrightarrow> error ?env = Some (JStr ''Workflow execution failed'')"
      by (rule fallback)
    show "?trk @ [Fetch ?req] = tr @ rounds k ?req interval @ [Fetch ?req]"
      by (rule whole)
    show "fetches (?trk @ [Fetch ?req]) = fetches tr @ replicate (Suc k) (Fetch ?req)"
      by (rule trace)
  qed
qed

theorem poll_failed_witness:
  "pollWorkflowStatus
     (replies [] (json_reply 200 (JObj [(''status'', JStr ''failed''), (''error'', JStr ''bad input'')])))
     ''job-1'' ''http://n8n/status'' 2000 30 [] =
   (Inr \<lparr>success = False, data = None, error = Some (JStr ''bad input'')\<rparr>,
    [Fetch (status_request ''http://n8n/status'' ''job-1'')])
   \<and> pollWorkflowStatus (replies [] (json_reply 200 (JObj [(''status'', JStr ''error'')])))
     ''job-1'' ''http://n8n/status'' 2000 30 [] =
   (Inr \<lparr>success = False, data = None, error = Some (JStr ''Workflow execution failed'')\<rparr>,
    [Fetch (status_request ''http://n8n/status'' ''job-1'')])"
proof -
  let ?req = "status_request ''http://n8n/status'' ''job-1''"
  let ?kvs1 = "[(''status'', JStr ''failed''), (''error'', JStr ''bad input'')]"
  let ?kvs2 = "[(''status'', JStr ''error'')]"
  let ?net1 = "replies [] (json_reply 200 (JObj ?kvs1))"
  let ?net2 = "replies [] (json_reply 200 (JObj ?kvs2))"
  let ?r1 = "\<lparr>status = 200, json_result = Inr (JObj ?kvs1)\<rparr>"
  let ?r2 = "\<lparr>status = 200, json_result = Inr (JObj ?kvs2)\<rparr>"
  have last1: "?net1 (length (fetches []) + 0) ?req = Resolved ?r1"
    and last2: "?net2 (length (fetches []) + 0) ?req = Resolved ?r2"
    by (simp_all add: replies_def json_reply_def)
  have okr: "ok ?r1" "ok ?r2"
    by (simp_all add: ok_def)
  obtain env1 tr1
    where run1: "pollWorkflowStatus ?net1 ''job-1'' ''http://n8n/status'' 2000 30 [] = (Inr env1, tr1)"
      and env1: "success env1 = False" "data env1 = None" "error env1 = Some (JStr ''bad input'')"
      and tr1: "tr1 = [Fetch ?req]"
    using last1 okr(1)
      poll_failed [of 0 ?net1 "[]" "''http://n8n/status''" "''job-1''" 30 ?r1 ?kvs1 2000]
    by auto
  obtain env2 tr2
    where run2: "pollWorkflowStatus ?net2 ''job-1'' ''http://n8n/status'' 2000 30 [] = (Inr env2, tr2)"
      and env2: "success env2 = False" "data env2 = None"
        "error env2 = Some (JStr ''Workflow execution failed'')"
      and tr2: "tr2 = [Fetch ?req]"
    using last2 okr(2)
      poll_failed [of 0 ?net2 "[]" "''http://n8n/status''" "''job-1''" 30 ?r2 ?kvs2 2000]
    by auto
  from env1 have "env1 = \<lparr>success = False, data = None, error = Some (JStr ''bad input'')\<rparr>"
    by (cases env1) simp
  moreover from env2
  have "env2 = \<lparr>success = False, data = None, error = Some (JStr ''Workflow execution failed'')\<rparr>"
    by (cases env2) simp
  ultimately show ?thesis
    using run1 tr1 run2 tr2 by simp
qed

theorem poll_failed_error_value_counterexample:
  "pollWorkflowStatus
     (replies [] (json_reply 200 (JObj [(''status'', JStr ''failed''), (''error'', JNum 0)])))
     ''job-1'' ''http://n8n/status'' 2000 30 [] =
   (Inr \<lparr>success = False, data = None, error = Some (JStr ''Workflow execution failed'')\<rparr>,
    [Fetch (status_request ''http://n8n/status'' ''job-1'')])
   \<and> pollWorkflowStatus
     (replies [] (json_reply 200 (JObj [(''status'', JStr ''failed''), (''error'', JArr [])])))
     ''job-1'' ''http://n8n/status'' 2000 30 [] =
   (Inr \<lparr>success = False, data = None, error = Some (JArr [])\<rparr>,
    [Fetch (status_request ''http://n8n/status'' ''job-1'')])"
proof -
  let ?kvs1 = "[(''status'', JStr ''failed''), (''error'', JNum 0)]"
  let ?kvs2 = "[(''status'', JStr ''failed''), (''error'', JArr [])]"
  have one: "pollWorkflowStatus (replies [] (json_reply 200 (JObj ?kvs1)))
      ''job-1'' ''http://n8n/status'' 2000 30 [] =
      (Inr \<lparr>success = False, data = None,
             error = Some (js_or (map_of ?kvs1 ''error'') (JStr ''Workflow execution failed''))\<rparr>,
       [Fetch (status_request ''http://n8n/status'' ''job-1'')])"
    by (rule poll_first_reply_failed [of _ _ _ _ "\<lparr>status = 200, json_result = Inr (JObj ?kvs1)\<rparr>"])
       (simp_all add: replies_def json_reply_def ok_def)
  have two: "pollWorkflowStatus (replies [] (json_reply 200 (JObj ?kvs2)))
      ''job-1'' ''http://n8n/status'' 2000 30 [] =
      (Inr \<lparr>success = False, data = None,
             error = Some (js_or (map_of ?kvs2 ''error'') (JStr ''Workflow execution failed''))\<rparr>,
       [Fetch (status_request ''http://n8n/status'' ''job-1'')])"
    by (rule poll_first_reply_failed [of _ _ _ _ "\<lparr>status = 200, json_result = Inr (JObj ?kvs2)\<rparr>"])
       (simp_all add: replies_def json_reply_def ok_def)
  from one two show ?thesis by simp
qed

text \<open>
  C6, as the code has it. With a budget of at least 1, when each of the first
  \<^verbatim>\<open>maxAttempts\<close> replies is a 2xx response whose body parses, is not \<^verbatim>\<open>null\<close>,
  and carries no terminal status, \<^verbatim>\<open>pollWorkflowStatus\<close> returns
  \<^verbatim>\<open>{success: false, error: 'Workflow execution timed out'}\<close> after exactly
  \<^verbatim>\<open>maxAttempts\<close> requests (and as many waits). The witness is the run of the spec:
  always \<^verbatim>\<open>processing\<close>, interval 1, budget 5.

  Without the condition on the body the claim fails: a 2xx response whose body is
  not JSON, or is \<^verbatim>\<open>null\<close>, carries no terminal status either, yet it ends the
  poll at the first request with the message of the exception (the counterexample
  below).
\<close>

theorem poll_budget_exhausted:
  assumes "1 \<le> maxAttempts"
    and "\<forall>i<nat maxAttempts.
           pending_reply (net (length (fetches tr) + i) (status_request statusUrl jobId))"
  shows "\<exists>tr'. pollWorkflowStatus net jobId statusUrl interval maxAttempts tr =
           (Inr \<lparr>success = False, data = None, error = Some (JStr ''Workflow execution timed out'')\<rparr>,
            tr')
         \<and> tr' = tr @ rounds (nat maxAttempts) (status_request statusUrl jobId) interval
         \<and> fetches tr' = fetches tr @ replicate (nat maxAttempts) (Fetch (status_request statusUrl jobId))
         \<and> sleeps tr' = sleeps tr @ replicate (nat maxAttempts) (Sleep interval)"
proof -
  let ?k = "nat maxAttempts"
  have k: "int ?k = maxAttempts" using assms(1) by simp
  have "pollWorkflowStatus net jobId statusUrl interval maxAttempts tr =
        poll_loop net jobId statusUrl interval maxAttempts (int ?k)
          (tr @ rounds ?k (status_request statusUrl jobId) interval)"
    using assms(2) k poll_after_pending [of ?k net tr statusUrl jobId maxAttempts interval]
    by simp
  then show ?thesis
    using k by (simp add: poll_loop_exhausted timed_out_def)
qed

theorem poll_budget_exhausted_witness:
  "pollWorkflowStatus (replies [] (json_reply 200 (JObj [(''status'', JStr ''processing'')])))
     ''job-1'' ''http://n8n/status'' 1 5 [] =
   (Inr \<lparr>success = False, data = None, error = Some (JStr ''Workflow execution timed out'')\<rparr>,
    [Fetch (status_request ''http://n8n/status'' ''job-1''), Sleep 1,
     Fetch (status_request ''http://n8n/status'' ''job-1''), Sleep 1,
     Fetch (status_request ''http://n8n/status'' ''job-1''), Sleep 1,
     Fetch (status_request ''http://n8n/status'' ''job-1''), Sleep 1,
     Fetch (status_request ''http://n8n/status'' ''job-1''), Sleep 1])"
proof -
  let ?net = "replies [] (json_reply 200 (JObj [(''status'', JStr ''processing'')]))"
  have proc: "pending_reply (json_reply 200 (JObj [(''status'', JStr ''processing'')]))"
    by (simp add: pending_reply_def json_reply_def ok_def pending_body_def terminal_status_def)
  have pend: "\<forall>i<nat 5. pending_reply
      (?net (length (fetches []) + i) (status_request ''http://n8n/status'' ''job-1''))"
    using proc by (simp add: replies_def)
  have five: "rounds 5 (status_request ''http://n8n/status'' ''job-1'') 1 =
      [Fetch (status_request ''http://n8n/status'' ''job-1''), Sleep 1,
       Fetch (status_request ''http://n8n/status'' ''job-1''), Sleep 1,
       Fetch (status_request ''http://n8n/status'' ''job-1''), Sleep 1,
       Fetch (status_request ''http://n8n/status'' ''job-1''), Sleep 1,
       Fetch (status_request ''http://n8n/status'' ''job-1''), Sleep 1]"
    by (simp add: eval_nat_numeral rounds_Suc)
  show ?thesis
    using pend poll_budget_exhausted [of 5 ?net "[]" "''http://n8n/status''" "''job-1''" 1]
    by (simp add: five)
qed

theorem poll_unusable_body_counterexample:
  "pollWorkflowStatus
     (replies [] (Resolved \<lparr>status = 200, json_result = Inl (ErrorObj ''Unexpected end of JSON input'')\<rparr>))
     ''job-1'' ''http://n8n/status'' 1 5 [] =
   (Inr \<lparr>success = False, data = None, error = Some (JStr ''Unexpected end of JSON input'')\<rparr>,
    [Fetch (status_request ''http://n8n/status'' ''job-1''),
     ConsoleError ''Polling error:'' (ErrorObj ''Unexpected end of JSON input'')])
   \<and> pollWorkflowStatus (replies [] (json_reply 200 JNull)) ''job-1'' ''http://n8n/status'' 1 5 [] =
   (Inr \<lparr>success = False, data = None, error = Some (JStr (null_read_message ''status''))\<rparr>,
    [Fetch (status_request ''http://n8n/status'' ''job-1''),
     ConsoleError ''Polling error:'' (ErrorObj (null_read_message ''status''))])"
proof -
  let ?req = "status_request ''http://n8n/status'' ''job-1''"
  let ?r1 = "\<lparr>status = 200, json_result = Inl (ErrorObj ''Unexpected end of JSON input'')\<rparr>"
  let ?r2 = "\<lparr>status = 200, json_result = Inr JNull\<rparr>"
  have "poll_try (replies [] (Resolved ?r1)) ''job-1'' ''http://n8n/status'' 1 [] =
          (Inl (ErrorObj ''Unexpected end of JSON input''), [] @ [Fetch ?req])"
    by (rule poll_try_unparsed [of _ _ _ _ ?r1]) (simp_all add: replies_def ok_def)
  then have one: "poll_loop (replies [] (Resolved ?r1)) ''job-1'' ''http://n8n/status'' 1 5 0 [] =
          catch_block ''Polling error:'' (ErrorObj ''Unexpected end of JSON input'') ([] @ [Fetch ?req])"
    by (rule poll_loop_throw [rotated]) simp
  have "poll_try (replies [] (json_reply 200 JNull)) ''job-1'' ''http://n8n/status'' 1 [] =
          (Inl (ErrorObj (null_read_message ''status'')), [] @ [Fetch ?req])"
    by (rule poll_try_no_status [of _ _ _ _ ?r2 JNull])
       (simp_all add: replies_def json_reply_def ok_def)
  then have two: "poll_loop (replies [] (json_reply 200 JNull)) ''job-1'' ''http://n8n/status'' 1 5 0 [] =
          catch_block ''Polling error:'' (ErrorObj (null_read_message ''status'')) ([] @ [Fetch ?req])"
    by (rule poll_loop_throw [rotated]) simp
  show ?thesis
    unfolding pollWorkflowStatus_def one two
    by (simp add: catch_block_def)
qed



section \<open>The shape of the envelope\<close>

lemma get_prop_Inl:
  assumes "get_prop b k = Inl err"
  shows "err = ErrorObj (null_read_message k)"
  using assms by (cases b) simp_all

lemma get_prop_total:
  assumes "get_prop b k = Inr v"
  shows "\<exists>e. get_prop b k' = Inr e"
  using assms by (cases b) simp_all

lemma null_read_message_nonempty: "null_read_message k \<noteq> []"
  by (simp add: null_read_message_def)

lemma poll_try_cases:
  fixes net :: network and tr :: trace and statusUrl jobId :: string
  defines "out \<equiv> net (length (fetches tr)) (status_request statusUrl jobId)"
  defines "tr1 \<equiv> tr @ [Fetch (status_request statusUrl jobId)]"
  obtains
    (rejected) err where "out = Rejected err"
      and "poll_try net jobId statusUrl interval tr = (Inl err, tr1)"
  | (non_2xx) r where "out = Resolved r"
      and "poll_try net jobId statusUrl interval tr = (Inl (http_error r), tr1)"
  | (unparsed) r err where "out = Resolved r" and "json_result r = Inl err"
      and "poll_try net jobId statusUrl interval tr = (Inl err, tr1)"
  | (null_body) "poll_try net jobId statusUrl interval tr =
        (Inl (ErrorObj (null_read_message ''status'')), tr1)"
  | (completed) b where
      "poll_try net jobId statusUrl interval tr =
         (Inr (Return \<lparr>success = True, data = Some b, error = None\<rparr>), tr1)"
  | (failed) r b e where "out = Resolved r" and "json_result r = Inr b"
      and "get_prop b ''error'' = Inr e"
      and "poll_try net jobId statusUrl interval tr =
         (Inr (Return \<lparr>success = False, data = None,
                 error = Some (js_or e (JStr ''Workflow execution failed''))\<rparr>), tr1)"
  | (pending) "poll_try net jobId statusUrl interval tr = (Inr Next, tr1 @ [Sleep interval])"
proof (cases out)
  case (Rejected err)
  then show ?thesis
    using rejected poll_try_rejected [of net tr statusUrl jobId err]
    by (simp add: out_def tr1_def)
next
  case (Resolved r)
  note out = Resolved [unfolded out_def]
  show ?thesis
  proof (cases "ok r")
    case False
    then show ?thesis
      using non_2xx Resolved poll_try_non_2xx [of net tr statusUrl jobId r] out
      by (simp add: tr1_def)
  next
    case True
    show ?thesis
    proof (cases "json_result r")
      case (Inl err)
      then show ?thesis
        using unparsed Resolved True poll_try_unparsed [of net tr statusUrl jobId r err] out
        by (simp add: tr1_def)
    next
      case (Inr b)
      show ?thesis
      proof (cases "get_prop b ''status''")
        case (Inl err)
        then have "err = ErrorObj (null_read_message ''status'')"
          by (rule get_prop_Inl)
        then show ?thesis
          using null_body True Inr Inl poll_try_no_status [of net tr statusUrl jobId r b err] out
          by (simp add: tr1_def)
      next
        case st: (Inr st)
        then obtain e where e: "get_prop b ''error'' = Inr e"
          using get_prop_total by blast
        consider (c) "st = Some (JStr ''completed'') \<or> st = Some (JStr ''success'')"
          | (f) "st = Some (JStr ''failed'') \<or> st = Some (JStr ''error'')"
          | (p) "st \<noteq> Some (JStr ''completed'')" "st \<noteq> Some (JStr ''success'')"
                "st \<noteq> Some (JStr ''failed'')" "st \<noteq> Some (JStr ''error'')"
          by blast
        then show ?thesis
        proof cases
          case c
          then show ?thesis
            using completed [of b] True Inr st out
              poll_try_completed [of net tr statusUrl jobId r b st]
            by (simp add: tr1_def)
        next
          case f
          then show ?thesis
            using failed [of r b e] Resolved True Inr st e out
              poll_try_failed [of net tr statusUrl jobId r b st e]
            by (simp add: tr1_def)
        next
          case p
          then show ?thesis
            using pending True Inr st out
              poll_try_next [of net tr statusUrl jobId r b st]
            by (simp add: tr1_def)
        qed
      qed
    qed
  qed
qed

lemma catch_block_envelope:
  "\<exists>env. catch_block label err tr = (Inr env, tr @ [ConsoleError label err])
     \<and> \<not> success env \<and> envelope_shape env \<and> is_text (error env)
     \<and> (nonempty_message err \<longrightarrow> strict_envelope env)"
  by (cases err) (simp_all add: catch_block_def envelope_shape_def strict_envelope_def)

lemma http_error_nonempty: "nonempty_message (http_error r)"
  by (simp add: http_error_def)

lemma worded_rejected:
  assumes "\<forall>n q. worded_reply (net n q)" and "net n req = Rejected err"
  shows "nonempty_message err"
proof -
  from assms(1) have "worded_reply (net n req)" by blast
  with assms(2) show ?thesis by (simp add: worded_reply_def)
qed

lemma worded_unparsed:
  assumes "\<forall>n q. worded_reply (net n q)" and "net n req = Resolved r" and "json_result r = Inl err"
  shows "nonempty_message err"
proof -
  from assms(1) have "worded_reply (net n req)" by blast
  with assms(2,3) show ?thesis by (simp add: worded_reply_def)
qed

lemma text_error_field:
  assumes "\<forall>n q. text_error_reply (net n q)" and "net n req = Resolved r"
    and "json_result r = Inr b" and "get_prop b ''error'' = Inr e"
  shows "nonempty_text (Some (js_or e (JStr ''Workflow execution failed'')))"
proof -
  from assms(1) have "text_error_reply (net n req)" by blast
  with assms(2-4) have *: "truthy e \<Longrightarrow> is_text e"
    by (simp add: text_error_reply_def split: if_splits)
  show ?thesis
  proof (cases "truthy e")
    case True
    with * have "is_text e" by simp
    then obtain m where "e = Some (JStr m)"
      by (cases e rule: is_text.cases) simp_all
    with True show ?thesis by simp
  next
    case False
    then show ?thesis by (cases e) simp_all
  qed
qed

lemma invoke_envelope:
  "\<exists>env tr'. try_catch (post_try net req) (catch_block label) tr = (Inr env, tr')
     \<and> envelope_shape env
     \<and> (\<not> success env \<longrightarrow> is_text (error env))
     \<and> ((\<forall>n q. worded_reply (net n q)) \<longrightarrow> strict_envelope env)"
proof (cases "net (length (fetches tr)) req")
  case (Rejected err)
  then have "try_catch (post_try net req) (catch_block label) tr =
      catch_block label err (tr @ [Fetch req])"
    by (simp add: try_catch_def post_try_def fetch_def)
  then show ?thesis
    using catch_block_envelope [of label err "tr @ [Fetch req]"]
      worded_rejected [of net "length (fetches tr)" req err] Rejected
    by auto
next
  case (Resolved r)
  show ?thesis
  proof (cases "ok r")
    case False
    with Resolved have "try_catch (post_try net req) (catch_block label) tr =
        catch_block label (http_error r) (tr @ [Fetch req])"
      by (simp add: try_catch_def post_try_def fetch_def)
    then show ?thesis
      using catch_block_envelope [of label "http_error r" "tr @ [Fetch req]"] http_error_nonempty [of r]
      by auto
  next
    case True
    show ?thesis
    proof (cases "json_result r")
      case (Inl err)
      with Resolved True have "try_catch (post_try net req) (catch_block label) tr =
          catch_block label err (tr @ [Fetch req])"
        by (simp add: try_catch_def post_try_def fetch_def)
      then show ?thesis
        using catch_block_envelope [of label err "tr @ [Fetch req]"]
          worded_unparsed [of net "length (fetches tr)" req r err] Resolved Inl
        by auto
    next
      case (Inr B)
      with Resolved True show ?thesis
        by (simp add: post_try_success envelope_shape_def strict_envelope_def)
    qed
  qed
qed

lemma execute_envelope:
  "\<exists>env tr'. executeWorkflow N8N_WEBHOOK_URL net payload webhookUrl tr = (Inr env, tr')
     \<and> envelope_shape env
     \<and> (\<not> success env \<longrightarrow> is_text (error env))
     \<and> ((\<forall>n q. worded_reply (net n q)) \<longrightarrow> strict_envelope env)"
proof -
  have cfg: "envelope_shape not_configured \<and> \<not> success not_configured
      \<and> is_text (error not_configured) \<and> strict_envelope not_configured"
    by (simp add: not_configured_def envelope_shape_def strict_envelope_def)
  show ?thesis
  proof (cases "if str_truthy webhookUrl then webhookUrl else N8N_WEBHOOK_URL")
    case None
    then show ?thesis using cfg by (simp add: executeWorkflow_def)
  next
    case (Some u)
    show ?thesis
    proof (cases "u = []")
      case True
      with Some show ?thesis using cfg by (simp add: executeWorkflow_def)
    next
      case False
      with Some show ?thesis
        using invoke_envelope [of net "json_request u payload" "''Workflow execution error:''" tr]
        by (simp add: executeWorkflow_def)
    qed
  qed
qed

lemma execute_files_envelope:
  "\<exists>env tr'. executeWorkflowWithFiles N8N_WEBHOOK_URL net formData webhookUrl tr = (Inr env, tr')
     \<and> envelope_shape env
     \<and> (\<not> success env \<longrightarrow> is_text (error env))
     \<and> ((\<forall>n q. worded_reply (net n q)) \<longrightarrow> strict_envelope env)"
proof -
  have cfg: "envelope_shape not_configured \<and> \<not> success not_configured
      \<and> is_text (error not_configured) \<and> strict_envelope not_configured"
    by (simp add: not_configured_def envelope_shape_def strict_envelope_def)
  show ?thesis
  proof (cases "if str_truthy webhookUrl then webhookUrl else N8N_WEBHOOK_URL")
    case None
    then show ?thesis using cfg by (simp add: executeWorkflowWithFiles_def)
  next
    case (Some u)
    show ?thesis
    proof (cases "u = []")
      case True
      with Some show ?thesis using cfg by (simp add: executeWorkflowWithFiles_def)
    next
      case False
      with Some show ?thesis
        using invoke_envelope [of net "form_request u formData" "''Workflow execution error:''" tr]
        by (simp add: executeWorkflowWithFiles_def)
    qed
  qed
qed

lemma poll_loop_envelope:
  "\<exists>env tr'. poll_loop net jobId statusUrl interval maxAttempts attempts tr = (Inr env, tr')
     \<and> envelope_shape env
     \<and> ((\<forall>n q. worded_reply (net n q) \<and> text_error_reply (net n q)) \<longrightarrow> strict_envelope env)"
proof (induction "nat (maxAttempts - attempts)" arbitrary: attempts tr)
  case 0
  then have "maxAttempts \<le> attempts" by simp
  then show ?case
    by (simp add: poll_loop_exhausted timed_out_def envelope_shape_def strict_envelope_def)
next
  case (Suc m)
  then have lt: "attempts < maxAttempts" and m: "m = nat (maxAttempts - (attempts + 1))"
    by simp_all
  let ?req = "status_request statusUrl jobId"
  let ?tr1 = "tr @ [Fetch ?req]"
  let ?P = "\<lambda>res. \<exists>env tr'. res = (Inr env, tr') \<and> envelope_shape env
     \<and> ((\<forall>n q. worded_reply (net n q) \<and> text_error_reply (net n q)) \<longrightarrow> strict_envelope env)"
  have caught: "?P (catch_block ''Polling error:'' err ?tr1)"
    if "(\<forall>n q. worded_reply (net n q)) \<Longrightarrow> nonempty_message err" for err
    using that catch_block_envelope [of "''Polling error:''" err ?tr1] by auto
  show ?case
  proof (cases rule: poll_try_cases [of net tr statusUrl jobId interval])
    case (rejected err)
    then show ?thesis
      using lt caught [of err] worded_rejected [of net "length (fetches tr)" ?req err]
      by (simp add: poll_loop_throw)
  next
    case (non_2xx r)
    then show ?thesis
      using lt caught [of "http_error r"] http_error_nonempty [of r]
      by (simp add: poll_loop_throw)
  next
    case (unparsed r err)
    then show ?thesis
      using lt caught [of err] worded_unparsed [of net "length (fetches tr)" ?req r err]
      by (simp add: poll_loop_throw)
  next
    case null_body
    then show ?thesis
      using lt caught [of "ErrorObj (null_read_message ''status'')"] null_read_message_nonempty
      by (simp add: poll_loop_throw)
  next
    case (completed b)
    then show ?thesis
      using lt by (simp add: poll_loop_return envelope_shape_def strict_envelope_def)
  next
    case (failed r b e)
    then show ?thesis
      using lt text_error_field [of net "length (fetches tr)" ?req r b e]
      by (auto simp add: poll_loop_return envelope_shape_def strict_envelope_def)
  next
    case pending
    then have "poll_loop net jobId statusUrl interval maxAttempts attempts tr =
        poll_loop net jobId statusUrl interval maxAttempts (attempts + 1) (?tr1 @ [Sleep interval])"
      using lt by (simp add: poll_loop_next)
    then show ?thesis
      using Suc.hyps(1) [OF m, of "?tr1 @ [Sleep interval]"] by simp
  qed
qed

text \<open>
  Every call settles to an envelope whose \<^verbatim>\<open>data\<close> and \<^verbatim>\<open>error\<close> follow
  \<^verbatim>\<open>success\<close>, for every network and every payload that \<^verbatim>\<open>JSON.stringify\<close>
  serialises; the error of the two invokers is always a string.
\<close>

lemma settles_to_envelope:
  "(\<exists>env tr'. executeWorkflow N8N_WEBHOOK_URL net payload webhookUrl tr = (Inr env, tr')
      \<and> envelope_shape env
      \<and> (\<not> success env \<longrightarrow> is_text (error env))
      \<and> ((\<forall>n q. worded_reply (net n q)) \<longrightarrow> strict_envelope env))
   \<and> (\<exists>env tr'. executeWorkflowWithFiles N8N_WEBHOOK_URL net formData webhookUrl tr = (Inr env, tr')
      \<and> envelope_shape env
      \<and> (\<not> success env \<longrightarrow> is_text (error env))
      \<and> ((\<forall>n q. worded_reply (net n q)) \<longrightarrow> strict_envelope env))
   \<and> (\<exists>env tr'. pollWorkflowStatus net jobId statusUrl interval maxAttempts tr = (Inr env, tr')
      \<and> envelope_shape env
      \<and> ((\<forall>n q. worded_reply (net n q) \<and> text_error_reply (net n q)) \<longrightarrow> strict_envelope env))"
  using execute_envelope [of N8N_WEBHOOK_URL net payload webhookUrl tr]
    execute_files_envelope [of N8N_WEBHOOK_URL net formData webhookUrl tr]
    poll_loop_envelope [of net jobId statusUrl interval maxAttempts 0 tr]
  unfolding pollWorkflowStatus_def
  by blast

text \<open>
  C9. The envelope type declares \<^verbatim>\<open>error?: string\<close>, and every other path of the
  three functions puts a string there. The failed branch of the poller returns
  \<^verbatim>\<open>result.error || 'Workflow execution failed'\<close> without looking at its type:
  for the status body \<^verbatim>\<open>{status: "failed", error: {message: "bad input"}}\<close> the
  envelope is \<^verbatim>\<open>{success: false, error: {message: "bad input"}}\<close>, whose error is
  an object and not a string.
\<close>

theorem poll_error_field_not_string:
  "pollWorkflowStatus
     (replies [] (json_reply 200 (JObj [(''status'', JStr ''failed''),
                                        (''error'', JObj [(''message'', JStr ''bad input'')])])))
     ''job-1'' ''http://n8n/status'' 2000 30 [] =
   (Inr \<lparr>success = False, data = None, error = Some (JObj [(''message'', JStr ''bad input'')])\<rparr>,
    [Fetch (status_request ''http://n8n/status'' ''job-1'')])
   \<and> is_text (Some (JObj [(''message'', JStr ''bad input'')])) = False"
proof -
  let ?kvs = "[(''status'', JStr ''failed''), (''error'', JObj [(''message'', JStr ''bad input'')])]"
  have "pollWorkflowStatus (replies [] (json_reply 200 (JObj ?kvs)))
      ''job-1'' ''http://n8n/status'' 2000 30 [] =
      (Inr \<lparr>success = False, data = None,
             error = Some (js_or (map_of ?kvs ''error'') (JStr ''Workflow execution failed''))\<rparr>,
       [Fetch (status_request ''http://n8n/status'' ''job-1'')])"
    by (rule poll_first_reply_failed [of _ _ _ _ "\<lparr>status = 200, json_result = Inr (JObj ?kvs)\<rparr>"])
       (simp_all add: replies_def json_reply_def ok_def)
  then show ?thesis by simp
qed

end
